theory Spec2Isabelle
  imports Main
begin

section \<open>The process-wide PostgreSQL connection pool of \<^verbatim>\<open>src/db/postgres.py\<close>\<close>

text \<open>
  The module keeps one global, \<^verbatim>\<open>_pool\<close>, and three functions over it:
  \<^verbatim>\<open>init_pool\<close>, \<^verbatim>\<open>get_pool\<close> and \<^verbatim>\<open>close_pool\<close>. The embedding passes the state
  explicitly. Every function returns its outcome together with the state it leaves behind,
  also when it raises, so that what an exception leaves in the global is a fact to prove
  and not a consequence of the result type.
\<close>

subsection \<open>Python values\<close>

text \<open>
  The process environment is a dictionary of strings; \<^verbatim>\<open>os.getenv(key)\<close> returns
  \<^verbatim>\<open>None\<close> for a variable that is not set.
\<close>

type_synonym environ = "string \<rightharpoonup> string"

definition getenv :: "environ \<Rightarrow> string \<Rightarrow> string option" where
  "getenv env key = env key"

text \<open>
  Truthiness of an \<^verbatim>\<open>Optional[str]\<close>: \<^verbatim>\<open>not x\<close> holds for \<^verbatim>\<open>None\<close> and for the
  empty string; \<^verbatim>\<open>a or b\<close> is \<^verbatim>\<open>a\<close> when \<^verbatim>\<open>a\<close> is truthy and \<^verbatim>\<open>b\<close> otherwise.
\<close>

definition py_not :: "string option \<Rightarrow> bool" where
  "py_not x = (case x of None \<Rightarrow> True | Some s \<Rightarrow> s = [])"

definition py_or :: "string option \<Rightarrow> string \<Rightarrow> string" where
  "py_or a b = (case a of None \<Rightarrow> b | Some s \<Rightarrow> if s = [] then b else s)"

text \<open>
  A replacement field \<^verbatim>\<open>{x}\<close> of an f-string formats \<^verbatim>\<open>x\<close> with \<^verbatim>\<open>str\<close>: a string
  as itself, \<^verbatim>\<open>None\<close> as the four characters \<^verbatim>\<open>None\<close>.
\<close>

definition fmt :: "string option \<Rightarrow> string" where
  "fmt x = (case x of None \<Rightarrow> ''None'' | Some s \<Rightarrow> s)"

subsection \<open>The external pool objects\<close>

text \<open>
  \<^verbatim>\<open>psycopg_pool.ConnectionPool\<close> is a library class, not code of this module. A pool
  object is a record of what the module gives the constructor, and of whether the object
  has been closed. Objects live in a store, a list addressed by index; a reference is an
  index, so that two references are the same object exactly when they are equal, and
  the constructor returns an index nothing referred to before.
\<close>

record connection_pool =
  pool_conninfo :: string
  pool_min_size :: int
  pool_max_size :: int
  pool_closed :: bool

type_synonym ref = nat

record state =
  heap :: "connection_pool list"
  global_pool :: "ref option"

text \<open>Line 14, \<^verbatim>\<open>_pool: Optional[ConnectionPool] = None\<close>: the state at import.\<close>

definition initial_state :: state where
  "initial_state = \<lparr>heap = [], global_pool = None\<rparr>"

text \<open>
  The exceptions. \<^verbatim>\<open>ConfigurationError\<close> is the \<^verbatim>\<open>ValueError\<close> that line 48 raises
  (the specification's name for it); \<^verbatim>\<open>PoolConstructorError\<close> stands for whatever the
  library's constructor raises when it refuses its arguments; \<^verbatim>\<open>AssertionError\<close> is the
  failure of the \<^verbatim>\<open>assert\<close> of line 59.
\<close>

datatype error = ConfigurationError | PoolConstructorError | AssertionError

text \<open>
  Which arguments the library's constructor accepts is not decided by this module: it is
  a parameter, \<open>accepts\<close>, of everything below. A call the library accepts allocates a new
  open pool object and returns its reference; a call it refuses raises and allocates
  nothing.
\<close>

type_synonym library = "string \<Rightarrow> int \<Rightarrow> int \<Rightarrow> bool"

definition ConnectionPool ::
  "library \<Rightarrow> string \<Rightarrow> int \<Rightarrow> int \<Rightarrow> state \<Rightarrow> (error + ref) \<times> state" where
  "ConnectionPool accepts conninfo mn mx st =
     (if accepts conninfo mn mx
      then (Inr (length (heap st)),
            st\<lparr>heap := heap st @
              [\<lparr>pool_conninfo = conninfo, pool_min_size = mn, pool_max_size = mx,
                pool_closed = False\<rparr>]\<rparr>)
      else (Inl PoolConstructorError, st))"

text \<open>
  \<^verbatim>\<open>p.close()\<close> marks the object closed. (A reference outside the store changes
  nothing: \<open>xs[i := v]\<close> is \<open>xs\<close> there.)
\<close>

definition pool_close :: "ref \<Rightarrow> state \<Rightarrow> state" where
  "pool_close p st =
     (if p < length (heap st)
      then st\<lparr>heap := (heap st)[p := (heap st ! p)\<lparr>pool_closed := True\<rparr>]\<rparr>
      else st)"

subsection \<open>The module's functions\<close>

text \<open>
  \<^verbatim>\<open>init_pool(dsn=None, min_size=1, max_size=10)\<close>, lines 17 to 51. The check of the
  five variables (line 47) comes after \<^verbatim>\<open>effective_dsn\<close> is computed and does not look
  at \<^verbatim>\<open>dsn\<close>.
\<close>

definition init_pool ::
  "library \<Rightarrow> environ \<Rightarrow> string option \<Rightarrow> int \<Rightarrow> int \<Rightarrow> state \<Rightarrow> (error + ref) \<times> state" where
  "init_pool accepts env dsn mn mx st =
     (case global_pool st of
        Some p \<Rightarrow> (Inr p, st)
      | None \<Rightarrow>
          (let postgres_user = getenv env ''POSTGRES_USER'';
               postgres_password = getenv env ''POSTGRES_PASSWORD'';
               postgres_host = getenv env ''POSTGRES_HOST'';
               postgres_port = getenv env ''POSTGRES_PORT'';
               postgres_db = getenv env ''POSTGRES_TECHFLOW_DATABASE'';
               postgres_url =
                 ''postgresql://'' @ fmt postgres_user @ '':'' @ fmt postgres_password @
                 ''@'' @ fmt postgres_host @ '':'' @ fmt postgres_port @ ''/'' @
                 fmt postgres_db @ ''?sslmode=require&channel_binding=require'';
               effective_dsn = py_or dsn postgres_url
           in if py_not postgres_user \<or> py_not postgres_password \<or> py_not postgres_host \<or>
                 py_not postgres_port \<or> py_not postgres_db
              then (Inl ConfigurationError, st)
              else (case ConnectionPool accepts effective_dsn mn mx st of
                      (Inl e, st') \<Rightarrow> (Inl e, st')
                    | (Inr p, st') \<Rightarrow> (Inr p, st'\<lparr>global_pool := Some p\<rparr>))))"

text \<open>Lines 59 and 60 of \<^verbatim>\<open>get_pool\<close>: the assertion, then the return of the global.\<close>

definition assert_pool :: "state \<Rightarrow> (error + ref) \<times> state" where
  "assert_pool st =
     (case global_pool st of
        None \<Rightarrow> (Inl AssertionError, st)
      | Some p \<Rightarrow> (Inr p, st))"

text \<open>
  \<^verbatim>\<open>get_pool()\<close>, lines 54 to 60: \<^verbatim>\<open>init_pool()\<close> is called with its defaults when the
  global is \<^verbatim>\<open>None\<close>, its result is dropped and its exception propagates.
\<close>

definition get_pool :: "library \<Rightarrow> environ \<Rightarrow> state \<Rightarrow> (error + ref) \<times> state" where
  "get_pool accepts env st =
     (case global_pool st of
        None \<Rightarrow>
          (case init_pool accepts env None 1 10 st of
             (Inl e, st') \<Rightarrow> (Inl e, st')
           | (Inr _, st') \<Rightarrow> assert_pool st')
      | Some _ \<Rightarrow> assert_pool st)"

text \<open>\<^verbatim>\<open>close_pool()\<close>, lines 63 to 68. It returns \<^verbatim>\<open>None\<close>: the unit value.\<close>

definition close_pool :: "state \<Rightarrow> (error + unit) \<times> state" where
  "close_pool st =
     (case global_pool st of
        None \<Rightarrow> (Inr (), st)
      | Some p \<Rightarrow> (Inr (), (pool_close p st)\<lparr>global_pool := None\<rparr>))"

subsection \<open>Reachable states\<close>

text \<open>
  A reference held in the global must address an object of the store. The states the
  program can be in are the ones the three functions lead to from the state at import,
  whatever their arguments and whatever the environment at each call.
\<close>

definition wf_state :: "state \<Rightarrow> bool" where
  "wf_state st = (case global_pool st of None \<Rightarrow> True | Some p \<Rightarrow> p < length (heap st))"

inductive reachable :: "library \<Rightarrow> state \<Rightarrow> bool" for accepts :: library where
  at_import: "reachable accepts initial_state"
| after_init: "reachable accepts st \<Longrightarrow> reachable accepts (snd (init_pool accepts env dsn mn mx st))"
| after_get: "reachable accepts st \<Longrightarrow> reachable accepts (snd (get_pool accepts env st))"
| after_close: "reachable accepts st \<Longrightarrow> reachable accepts (snd (close_pool st))"

text \<open>\<^verbatim>\<open>close_pool()\<close> called \<open>n\<close> times in succession.\<close>

fun close_times :: "nat \<Rightarrow> state \<Rightarrow> state" where
  "close_times 0 st = st"
| "close_times (Suc n) st = close_times n (snd (close_pool st))"

subsection \<open>The specification's vocabulary\<close>

text \<open>
  The five required parameters, by the names of their environment variables (section 6 of
  the specification), and what it is for one of them to be missing or empty.
\<close>

definition required_vars :: "string list" where
  "required_vars =
     [''POSTGRES_USER'', ''POSTGRES_PASSWORD'', ''POSTGRES_HOST'', ''POSTGRES_PORT'',
      ''POSTGRES_TECHFLOW_DATABASE'']"

definition misconfigured :: "environ \<Rightarrow> bool" where
  "misconfigured env = (\<exists>k \<in> set required_vars. env k = None \<or> env k = Some [])"

text \<open>All five parameters are present and not empty, with the values named.\<close>

definition has_config ::
  "environ \<Rightarrow> string \<Rightarrow> string \<Rightarrow> string \<Rightarrow> string \<Rightarrow> string \<Rightarrow> bool" where
  "has_config env user password host port database =
     (env ''POSTGRES_USER'' = Some user \<and> user \<noteq> [] \<and>
      env ''POSTGRES_PASSWORD'' = Some password \<and> password \<noteq> [] \<and>
      env ''POSTGRES_HOST'' = Some host \<and> host \<noteq> [] \<and>
      env ''POSTGRES_PORT'' = Some port \<and> port \<noteq> [] \<and>
      env ''POSTGRES_TECHFLOW_DATABASE'' = Some database \<and> database \<noteq> [])"

text \<open>
  The connection string format as the specification writes it:
  \<^verbatim>\<open>postgresql://<user>:<password>@<host>:<port>/<database>?sslmode=require&channel_binding=require\<close>.
\<close>

definition spec_url :: "string \<Rightarrow> string \<Rightarrow> string \<Rightarrow> string \<Rightarrow> string \<Rightarrow> string" where
  "spec_url user password host port database =
     ''postgresql://'' @ user @ '':'' @ password @ ''@'' @ host @ '':'' @ port @ ''/'' @
     database @ ''?sslmode=require&channel_binding=require''"

text \<open>
  The specification's examples: the environment \<^verbatim>\<open>{USER=u, PASSWORD=p, HOST=h, PORT=5432, DB=d}\<close>,
  the same environment without its password, and a library that accepts every call.
\<close>

definition env_example :: environ where
  "env_example =
     [''POSTGRES_USER'' \<mapsto> ''u'', ''POSTGRES_PASSWORD'' \<mapsto> ''p'', ''POSTGRES_HOST'' \<mapsto> ''h'',
      ''POSTGRES_PORT'' \<mapsto> ''5432'', ''POSTGRES_TECHFLOW_DATABASE'' \<mapsto> ''d'']"

definition env_no_password :: environ where
  "env_no_password =
     [''POSTGRES_USER'' \<mapsto> ''u'', ''POSTGRES_HOST'' \<mapsto> ''h'',
      ''POSTGRES_PORT'' \<mapsto> ''5432'', ''POSTGRES_TECHFLOW_DATABASE'' \<mapsto> ''d'']"

definition accept_all :: library where
  "accept_all conninfo mn mx = True"

text \<open>The state after the first \<^verbatim>\<open>get_pool()\<close> of a process started in that environment.\<close>

definition state_example :: state where
  "state_example = snd (get_pool accept_all env_example initial_state)"

section \<open>Properties\<close>

subsection \<open>Shared lemmas\<close>

lemma py_not_iff: "py_not x \<longleftrightarrow> x = None \<or> x = Some []"
  by (simp add: py_not_def split: option.splits)

text \<open>The three paths of \<^verbatim>\<open>init_pool\<close>: a pool exists, a parameter is missing, all five are there.\<close>

lemma init_pool_existing:
  "global_pool st = Some p \<Longrightarrow> init_pool accepts env dsn mn mx st = (Inr p, st)"
  by (simp add: init_pool_def)

lemma init_pool_misconfigured:
  assumes "global_pool st = None" and "misconfigured env"
  shows "init_pool accepts env dsn mn mx st = (Inl ConfigurationError, st)"
proof -
  from assms(2) have
    "py_not (getenv env ''POSTGRES_USER'') \<or> py_not (getenv env ''POSTGRES_PASSWORD'') \<or>
     py_not (getenv env ''POSTGRES_HOST'') \<or> py_not (getenv env ''POSTGRES_PORT'') \<or>
     py_not (getenv env ''POSTGRES_TECHFLOW_DATABASE'')"
    unfolding misconfigured_def required_vars_def getenv_def py_not_iff by auto
  with assms(1) show ?thesis
    by (simp add: init_pool_def Let_def)
qed

lemma init_pool_configured:
  assumes "global_pool st = None" and "has_config env u pw h port db"
  shows "init_pool accepts env dsn mn mx st =
    (case ConnectionPool accepts (py_or dsn (spec_url u pw h port db)) mn mx st of
       (Inl e, st') \<Rightarrow> (Inl e, st')
     | (Inr p, st') \<Rightarrow> (Inr p, st'\<lparr>global_pool := Some p\<rparr>))"
  using assms
  by (simp add: init_pool_def Let_def has_config_def getenv_def py_not_def fmt_def spec_url_def)

lemma has_config_example: "has_config env_example ''u'' ''p'' ''h'' ''5432'' ''d''"
  by (simp add: has_config_def env_example_def)

lemma misconfigured_no_password: "misconfigured env_no_password"
  by (simp add: misconfigured_def required_vars_def env_no_password_def)

text \<open>An environment either lacks a parameter or has all five: the two cases cover every call.\<close>

lemma configured_or_not:
  "misconfigured env \<or> (\<exists>u pw h port db. has_config env u pw h port db)"
  unfolding misconfigured_def required_vars_def has_config_def by auto

text \<open>What \<^verbatim>\<open>init_pool\<close> leaves behind, by outcome, and \<^verbatim>\<open>get_pool\<close> in terms of it.\<close>

lemma init_pool_error_state:
  "fst (init_pool accepts env dsn mn mx st) = Inl e \<Longrightarrow>
   snd (init_pool accepts env dsn mn mx st) = st \<and> global_pool st = None"
  by (auto simp: init_pool_def Let_def ConnectionPool_def split: option.splits if_splits)

lemma init_pool_stores:
  "fst (init_pool accepts env dsn mn mx st) = Inr p \<Longrightarrow>
   global_pool (snd (init_pool accepts env dsn mn mx st)) = Some p"
  by (auto simp: init_pool_def Let_def ConnectionPool_def split: option.splits if_splits)

lemma get_pool_existing:
  "global_pool st = Some p \<Longrightarrow> get_pool accepts env st = (Inr p, st)"
  by (simp add: get_pool_def assert_pool_def)

lemma get_pool_absent:
  assumes "global_pool st = None"
  shows "get_pool accepts env st = init_pool accepts env None 1 10 st"
proof (cases "fst (init_pool accepts env None 1 10 st)")
  case (Inl e)
  then show ?thesis using assms
    by (cases "init_pool accepts env None 1 10 st") (simp add: get_pool_def)
next
  case (Inr p)
  from init_pool_stores [OF Inr] Inr assms show ?thesis
    by (cases "init_pool accepts env None 1 10 st") (simp add: get_pool_def assert_pool_def)
qed

text \<open>Every reachable state is well formed.\<close>

lemma wf_init_pool: "wf_state st \<Longrightarrow> wf_state (snd (init_pool accepts env dsn mn mx st))"
  by (auto simp: wf_state_def init_pool_def Let_def ConnectionPool_def split: option.splits)

lemma wf_get_pool: "wf_state st \<Longrightarrow> wf_state (snd (get_pool accepts env st))"
  by (cases "global_pool st") (simp_all add: get_pool_absent get_pool_existing wf_init_pool)

lemma wf_close_pool: "wf_state (snd (close_pool st))"
  by (simp add: wf_state_def close_pool_def split: option.splits)

lemma reachable_wf: "reachable accepts st \<Longrightarrow> wf_state st"
proof (induction rule: reachable.induct)
  case at_import
  show ?case by (simp add: wf_state_def initial_state_def)
next
  case (after_init st env dsn mn mx)
  then show ?case by (simp add: wf_init_pool)
next
  case (after_get st env)
  then show ?case by (simp add: wf_get_pool)
next
  case (after_close st)
  show ?case by (rule wf_close_pool)
qed

lemma initial_absent: "global_pool initial_state = None"
  by (simp add: initial_state_def)

lemma accept_all_example: "accept_all (spec_url ''u'' ''p'' ''h'' ''5432'' ''d'') 1 10"
  by (simp add: accept_all_def)

lemma get_pool_configured:
  assumes "global_pool st = None" and "has_config env u pw h port db"
    and "accepts (spec_url u pw h port db) 1 10"
  shows "get_pool accepts env st =
    (Inr (length (heap st)),
     \<lparr>heap = heap st @
        [\<lparr>pool_conninfo = spec_url u pw h port db, pool_min_size = 1, pool_max_size = 10,
          pool_closed = False\<rparr>],
      global_pool = Some (length (heap st))\<rparr>)"
  using assms
  by (simp add: get_pool_absent init_pool_configured [OF assms(1,2)] py_or_def ConnectionPool_def)

lemma state_example_eq:
  "state_example =
     \<lparr>heap = [\<lparr>pool_conninfo = ''postgresql://u:p@h:5432/d?sslmode=require&channel_binding=require'',
               pool_min_size = 1, pool_max_size = 10, pool_closed = False\<rparr>],
      global_pool = Some 0\<rparr>"
  unfolding state_example_def
  by (simp add: get_pool_configured
        [where accepts = accept_all, OF initial_absent has_config_example accept_all_example])
     (simp add: initial_state_def spec_url_def)

lemma reachable_example: "reachable accept_all state_example"
  unfolding state_example_def by (rule reachable.after_get) (rule reachable.at_import)

text \<open>\<^verbatim>\<open>close_pool\<close>, case by case.\<close>

lemma close_pool_ok: "fst (close_pool st) = Inr ()"
  by (simp add: close_pool_def split: option.splits)

lemma close_pool_absent_after: "global_pool (snd (close_pool st)) = None"
  by (simp add: close_pool_def split: option.splits)

lemma close_pool_noop: "global_pool st = None \<Longrightarrow> close_pool st = (Inr (), st)"
  by (simp add: close_pool_def)

lemma close_pool_releases:
  assumes "global_pool st = Some p" and "p < length (heap st)"
  shows "snd (close_pool st) =
           \<lparr>heap = (heap st)[p := (heap st ! p)\<lparr>pool_closed := True\<rparr>], global_pool = None\<rparr>"
  using assms by (simp add: close_pool_def pool_close_def)

lemma close_times_after_first:
  "close_times n (snd (close_pool st)) = snd (close_pool st)"
proof (induction n)
  case 0
  show ?case by simp
next
  case (Suc n)
  have "close_pool (snd (close_pool st)) = (Inr (), snd (close_pool st))"
    by (rule close_pool_noop) (rule close_pool_absent_after)
  with Suc show ?case by simp
qed

lemma get_pool_error_state:
  "fst (get_pool accepts env st) = Inl e \<Longrightarrow>
   snd (get_pool accepts env st) = st \<and> global_pool st = None"
  by (cases "global_pool st") (auto simp: get_pool_existing get_pool_absent init_pool_error_state)

lemma get_pool_stores:
  "fst (get_pool accepts env st) = Inr p \<Longrightarrow> global_pool (snd (get_pool accepts env st)) = Some p"
  by (cases "global_pool st") (auto simp: get_pool_existing get_pool_absent init_pool_stores)

lemma get_pool_no_assertion: "fst (get_pool accepts env st) \<noteq> Inl AssertionError"
proof (cases "global_pool st")
  case None
  show ?thesis
    by (auto simp: get_pool_absent [OF None] init_pool_def Let_def None ConnectionPool_def)
next
  case (Some p)
  then show ?thesis by (simp add: get_pool_existing)
qed

text \<open>A reference that \<^verbatim>\<open>get_pool\<close> returns from a well-formed state addresses the store.\<close>

lemma wf_initial: "wf_state initial_state"
  by (simp add: wf_state_def initial_state_def)

lemma get_pool_in_store:
  assumes "wf_state st" and "get_pool accepts env st = (Inr p, st1)"
  shows "p < length (heap st1)"
proof -
  from assms(1) have "wf_state (snd (get_pool accepts env st))" by (rule wf_get_pool)
  with assms(2) have w: "wf_state st1" by simp
  from assms(2) have "fst (get_pool accepts env st) = Inr p" by simp
  then have "global_pool (snd (get_pool accepts env st)) = Some p" by (rule get_pool_stores)
  with assms(2) have "global_pool st1 = Some p" by simp
  with w show ?thesis by (simp add: wf_state_def)
qed

subsection \<open>The claims\<close>

text \<open>
  C1. The claim: a call of \<^verbatim>\<open>init_pool\<close> with an explicit connection string succeeds
  without any of the five environment variables. The code does not do this. In a fresh
  process with an empty environment, \<^verbatim>\<open>init_pool("postgresql://a:b@c:5432/d")\<close> raises the
  error of line 48 and leaves the global absent: the check of line 47 does not look at
  \<^verbatim>\<open>dsn\<close>. The same call in the environment of the specification's example builds the pool
  from the string supplied, which is what \<^verbatim>\<open>dsn or postgres_url\<close> of line 46 is for.
\<close>

theorem init_pool_explicit_dsn_needs_env:
  "init_pool accepts Map.empty (Some ''postgresql://a:b@c:5432/d'') 1 10 initial_state =
     (Inl ConfigurationError, initial_state) \<and>
   init_pool accept_all env_example (Some ''postgresql://a:b@c:5432/d'') 1 10 initial_state =
     (Inr 0,
      \<lparr>heap = [\<lparr>pool_conninfo = ''postgresql://a:b@c:5432/d'', pool_min_size = 1,
                pool_max_size = 10, pool_closed = False\<rparr>],
       global_pool = Some 0\<rparr>)"
  by (simp add: init_pool_def initial_state_def getenv_def py_not_def py_or_def fmt_def Let_def
      env_example_def ConnectionPool_def accept_all_def)

text \<open>
  C2. When no pool exists, no connection string is supplied and one of the five parameters
  is missing or empty, \<^verbatim>\<open>init_pool\<close> (whatever the sizes) and \<^verbatim>\<open>get_pool\<close> raise
  \<^verbatim>\<open>ConfigurationError\<close>; no pool is returned and the state is the one before the call.
\<close>

theorem missing_parameter_raises:
  assumes "global_pool st = None" and "misconfigured env"
  shows "init_pool accepts env None mn mx st = (Inl ConfigurationError, st) \<and>
         get_pool accepts env st = (Inl ConfigurationError, st)"
  using assms by (simp add: get_pool_absent init_pool_misconfigured)

theorem missing_parameter_raises_witness:
  "global_pool initial_state = None \<and> misconfigured env_no_password \<and>
   init_pool accept_all env_no_password None 1 10 initial_state =
     (Inl ConfigurationError, initial_state) \<and>
   get_pool accept_all env_no_password initial_state = (Inl ConfigurationError, initial_state)"
  using missing_parameter_raises
      [OF initial_absent misconfigured_no_password, of accept_all 1 10]
    initial_absent misconfigured_no_password
  by simp

text \<open>
  C3. When a pool exists, \<^verbatim>\<open>init_pool\<close> returns it and leaves the whole state, store and
  global, as it was, for every connection string, every pair of sizes, every environment
  and every library: nothing is constructed and the outcome does not depend on the
  configuration.
\<close>

theorem init_pool_existing_unchanged:
  assumes "global_pool st = Some p"
  shows "init_pool accepts env dsn mn mx st = (Inr p, st)"
  using assms by (rule init_pool_existing)

theorem init_pool_existing_unchanged_witness:
  "global_pool state_example = Some 0 \<and>
   init_pool accept_all Map.empty (Some ''postgresql://x:y@z:1/w'') 5 20 state_example =
     (Inr 0, state_example)"
proof -
  have a: "global_pool state_example = Some 0" by (simp add: state_example_eq)
  from a init_pool_existing_unchanged [OF a] show ?thesis by simp
qed

text \<open>
  C4. Under a valid configuration (the five parameters present and not empty, the library
  accepting the assembled string with the default sizes) or with a pool already there,
  \<^verbatim>\<open>get_pool\<close> returns a reference \<open>p\<close> which is the one the global holds after the
  call and, from a well-formed state (every reachable state is one), addresses a pool
  object of the store; a second \<^verbatim>\<open>get_pool\<close> with nothing in between returns the same
  \<open>p\<close> and changes nothing, in whatever environment it runs. And whenever a
  \<^verbatim>\<open>get_pool\<close> returns at all, the same holds of what it returns.
\<close>

theorem get_pool_twice_same:
  "((has_config env u pw h port db \<and> accepts (spec_url u pw h port db) 1 10) \<or>
    global_pool st \<noteq> None \<longrightarrow>
      (\<exists>p st1. get_pool accepts env st = (Inr p, st1) \<and>
                global_pool st1 = Some p \<and>
                (wf_state st \<longrightarrow> p < length (heap st1)) \<and>
                get_pool accepts env' st1 = (Inr p, st1))) \<and>
   (get_pool accepts env st = (Inr q, st2) \<longrightarrow>
      global_pool st2 = Some q \<and>
      (wf_state st \<longrightarrow> q < length (heap st2)) \<and>
      get_pool accepts env' st2 = (Inr q, st2))"
proof -
  have ret: "global_pool s = Some r \<and> (wf_state st \<longrightarrow> r < length (heap s)) \<and>
             get_pool accepts env' s = (Inr r, s)"
    if r: "get_pool accepts env st = (Inr r, s)" for r s
  proof -
    from r have "fst (get_pool accepts env st) = Inr r" by simp
    then have "global_pool (snd (get_pool accepts env st)) = Some r" by (rule get_pool_stores)
    with r have g: "global_pool s = Some r" by simp
    then have "get_pool accepts env' s = (Inr r, s)" by (rule get_pool_existing)
    with g r show ?thesis by (simp add: get_pool_in_store)
  qed
  have returns: "\<exists>p st1. get_pool accepts env st = (Inr p, st1)"
    if valid: "(has_config env u pw h port db \<and> accepts (spec_url u pw h port db) 1 10) \<or>
      global_pool st \<noteq> None"
  proof (cases "global_pool st")
    case (Some p)
    then show ?thesis by (simp add: get_pool_existing)
  next
    case None
    with valid have c: "has_config env u pw h port db"
      and a: "accepts (spec_url u pw h port db) 1 10"
      by simp_all
    show ?thesis
      by (simp add: get_pool_configured [where accepts = accepts, OF None c a])
  qed
  show ?thesis
  proof (intro conjI impI)
    assume "(has_config env u pw h port db \<and> accepts (spec_url u pw h port db) 1 10) \<or>
      global_pool st \<noteq> None"
    then obtain p st1 where g: "get_pool accepts env st = (Inr p, st1)"
      using returns by blast
    from ret [OF g] g
    show "\<exists>p st1. get_pool accepts env st = (Inr p, st1) \<and> global_pool st1 = Some p \<and>
            (wf_state st \<longrightarrow> p < length (heap st1)) \<and>
            get_pool accepts env' st1 = (Inr p, st1)"
      by blast
  next
    assume r: "get_pool accepts env st = (Inr q, st2)"
    from ret [OF r] show "global_pool st2 = Some q" by blast
  next
    assume r: "get_pool accepts env st = (Inr q, st2)" and w: "wf_state st"
    from ret [OF r] w show "q < length (heap st2)" by blast
  next
    assume r: "get_pool accepts env st = (Inr q, st2)"
    from ret [OF r] show "get_pool accepts env' st2 = (Inr q, st2)" by blast
  qed
qed

theorem get_pool_twice_same_witness:
  "has_config env_example ''u'' ''p'' ''h'' ''5432'' ''d'' \<and>
   accept_all (spec_url ''u'' ''p'' ''h'' ''5432'' ''d'') 1 10 \<and>
   wf_state initial_state \<and>
   get_pool accept_all env_example initial_state = (Inr 0, state_example) \<and>
   global_pool state_example = Some 0 \<and>
   0 < length (heap state_example) \<and>
   get_pool accept_all Map.empty state_example = (Inr 0, state_example)"
proof -
  have g: "get_pool accept_all env_example initial_state = (Inr 0, state_example)"
    by (simp add: state_example_eq get_pool_configured
          [where accepts = accept_all, OF initial_absent has_config_example accept_all_example])
       (simp add: initial_state_def spec_url_def)
  from get_pool_twice_same
         [of env_example "''u''" "''p''" "''h''" "''5432''" "''d''" accept_all initial_state
            Map.empty 0 state_example] g wf_initial
  have "global_pool state_example = Some 0" and "0 < length (heap state_example)"
    and "get_pool accept_all Map.empty state_example = (Inr 0, state_example)"
    by blast+
  with g has_config_example accept_all_example wf_initial show ?thesis by blast
qed

text \<open>
  C5. When no pool exists, no connection string is supplied and the five parameters are
  present, what \<^verbatim>\<open>init_pool\<close> and \<^verbatim>\<open>get_pool\<close> do is one call of the library's
  constructor on the string in the specification's format, with the sizes given (1 and 10
  for \<^verbatim>\<open>get_pool\<close>), followed by storing the reference it returns. For the environment
  \<^verbatim>\<open>{USER=u, PASSWORD=p, HOST=h, PORT=5432, DB=d}\<close> the string is
  \<^verbatim>\<open>postgresql://u:p@h:5432/d?sslmode=require&channel_binding=require\<close>.
\<close>

theorem init_pool_assembles_url:
  assumes "global_pool st = None" and "has_config env user password host port database"
  shows "init_pool accepts env None mn mx st =
           (case ConnectionPool accepts (spec_url user password host port database) mn mx st of
              (Inl e, st') \<Rightarrow> (Inl e, st')
            | (Inr p, st') \<Rightarrow> (Inr p, st'\<lparr>global_pool := Some p\<rparr>)) \<and>
         get_pool accepts env st =
           (case ConnectionPool accepts (spec_url user password host port database) 1 10 st of
              (Inl e, st') \<Rightarrow> (Inl e, st')
            | (Inr p, st') \<Rightarrow> (Inr p, st'\<lparr>global_pool := Some p\<rparr>))"
  using assms
  by (simp add: get_pool_absent init_pool_configured [OF assms] py_or_def)

theorem init_pool_assembles_url_witness:
  "global_pool initial_state = None \<and>
   has_config env_example ''u'' ''p'' ''h'' ''5432'' ''d'' \<and>
   get_pool accept_all env_example initial_state =
     (Inr 0,
      \<lparr>heap = [\<lparr>pool_conninfo =
                  ''postgresql://u:p@h:5432/d?sslmode=require&channel_binding=require'',
                pool_min_size = 1, pool_max_size = 10, pool_closed = False\<rparr>],
       global_pool = Some 0\<rparr>)"
  using init_pool_assembles_url [OF initial_absent has_config_example, of accept_all 1 10]
    initial_absent has_config_example
  by (simp add: ConnectionPool_def accept_all_def spec_url_def initial_state_def)

text \<open>
  C6. In every state \<^verbatim>\<open>close_pool\<close> returns without raising and leaves the global absent.
  Without a pool it changes nothing; with a pool \<open>p\<close> of the store it marks \<open>p\<close> closed,
  touches no other object and clears the global. After any number \<open>n\<close> of calls a
  further call does not raise either, and \<open>n + 1\<close> calls in succession leave the state
  that the first one left.
\<close>

theorem close_pool_never_raises:
  "fst (close_pool st) = Inr () \<and>
   global_pool (snd (close_pool st)) = None \<and>
   (global_pool st = None \<longrightarrow> snd (close_pool st) = st) \<and>
   (global_pool st = Some p \<and> p < length (heap st) \<longrightarrow>
      snd (close_pool st) =
        \<lparr>heap = (heap st)[p := (heap st ! p)\<lparr>pool_closed := True\<rparr>], global_pool = None\<rparr>) \<and>
   fst (close_pool (close_times n st)) = Inr () \<and>
   close_times (Suc n) st = snd (close_pool st)"
  by (simp add: close_pool_ok close_pool_absent_after close_pool_noop close_pool_releases
      close_times_after_first)

theorem close_pool_never_raises_witness:
  "global_pool state_example = Some 0 \<and> 0 < length (heap state_example) \<and>
   close_pool state_example =
     (Inr (),
      \<lparr>heap = [\<lparr>pool_conninfo =
                  ''postgresql://u:p@h:5432/d?sslmode=require&channel_binding=require'',
                pool_min_size = 1, pool_max_size = 10, pool_closed = True\<rparr>],
       global_pool = None\<rparr>) \<and>
   global_pool initial_state = None \<and>
   close_pool initial_state = (Inr (), initial_state) \<and>
   close_times 3 state_example = snd (close_pool state_example)"
proof -
  have a: "global_pool state_example = Some 0" and b: "0 < length (heap state_example)"
    by (simp_all add: state_example_eq)
  note ex = close_pool_never_raises [of state_example 0 2]
  from ex a b have "fst (close_pool state_example) = Inr ()"
    and "snd (close_pool state_example) =
           \<lparr>heap = (heap state_example)[0 := (heap state_example ! 0)\<lparr>pool_closed := True\<rparr>],
            global_pool = None\<rparr>"
    by blast+
  then have c: "close_pool state_example =
     (Inr (),
      \<lparr>heap = [\<lparr>pool_conninfo =
                  ''postgresql://u:p@h:5432/d?sslmode=require&channel_binding=require'',
                pool_min_size = 1, pool_max_size = 10, pool_closed = True\<rparr>],
       global_pool = None\<rparr>)"
    by (simp add: prod_eq_iff state_example_eq)
  from ex have "close_times (Suc 2) state_example = snd (close_pool state_example)"
    by blast
  then have d: "close_times 3 state_example = snd (close_pool state_example)"
    by (simp only: numeral_3_eq_3 numeral_2_eq_2)
  from close_pool_never_raises [of initial_state 0 0] initial_absent
  have "fst (close_pool initial_state) = Inr ()" and "snd (close_pool initial_state) = initial_state"
    by blast+
  then have e: "close_pool initial_state = (Inr (), initial_state)"
    by (simp add: prod_eq_iff)
  from a b c d e initial_absent show ?thesis by blast
qed

text \<open>
  C7. In a reachable state holding a pool \<open>p\<close>, \<^verbatim>\<open>close_pool\<close> leaves the global absent,
  and a \<^verbatim>\<open>get_pool\<close> after it, under a valid configuration, returns a reference \<open>q\<close>
  different from \<open>p\<close>: a new object of the store, open, built from the assembled string,
  and the one the global now holds, while \<open>p\<close> is closed.
\<close>

theorem get_after_close_is_new:
  assumes "reachable accepts st" and "global_pool st = Some p"
    and "has_config env user password host port database"
    and "accepts (spec_url user password host port database) 1 10"
  shows "global_pool (snd (close_pool st)) = None \<and>
         (\<exists>q st2. get_pool accepts env (snd (close_pool st)) = (Inr q, st2) \<and>
                  q \<noteq> p \<and> global_pool st2 = Some q \<and>
                  q = length (heap st) \<and> length (heap st2) = Suc (length (heap st)) \<and>
                  pool_closed (heap st2 ! p) \<and>
                  heap st2 ! q =
                    \<lparr>pool_conninfo = spec_url user password host port database,
                     pool_min_size = 1, pool_max_size = 10, pool_closed = False\<rparr>)"
proof -
  from assms(1) have "wf_state st" by (rule reachable_wf)
  with assms(2) have lt: "p < length (heap st)" by (simp add: wf_state_def)
  let ?st1 = "snd (close_pool st)"
  have st1: "?st1 = \<lparr>heap = (heap st)[p := (heap st ! p)\<lparr>pool_closed := True\<rparr>], global_pool = None\<rparr>"
    using assms(2) lt by (rule close_pool_releases)
  have absent: "global_pool ?st1 = None" by (rule close_pool_absent_after)
  have len: "length (heap ?st1) = length (heap st)" by (simp add: st1)
  note g = get_pool_configured [where accepts = accepts, OF absent assms(3) assms(4)]
  show ?thesis
    using lt by (simp add: absent g len) (simp add: st1 nth_append)
qed

theorem get_after_close_is_new_witness:
  "reachable accept_all state_example \<and> global_pool state_example = Some 0 \<and>
   has_config env_example ''u'' ''p'' ''h'' ''5432'' ''d'' \<and>
   accept_all (spec_url ''u'' ''p'' ''h'' ''5432'' ''d'') 1 10 \<and>
   global_pool (snd (close_pool state_example)) = None \<and>
   fst (get_pool accept_all env_example (snd (close_pool state_example))) = Inr 1"
proof -
  have a: "global_pool state_example = Some 0" and l: "length (heap state_example) = 1"
    by (simp_all add: state_example_eq)
  from get_after_close_is_new
         [where accepts = accept_all, OF reachable_example a has_config_example accept_all_example]
  have "global_pool (snd (close_pool state_example)) = None"
    and "fst (get_pool accept_all env_example (snd (close_pool state_example))) = Inr 1"
    by (auto simp: l)
  with reachable_example a has_config_example accept_all_example show ?thesis by blast
qed

text \<open>
  C8. \<^verbatim>\<open>init_pool\<close> with the empty string for \<^verbatim>\<open>dsn\<close> is \<^verbatim>\<open>init_pool\<close> with no
  \<^verbatim>\<open>dsn\<close>: the same outcome and the same final state, for every environment, every
  pair of sizes and every state. With no pool and the five parameters present, the call
  with the empty string is one call of the library's constructor on the string assembled
  from them, followed by storing the reference; with no pool and a parameter missing or
  empty, it raises \<^verbatim>\<open>ConfigurationError\<close> and leaves the state as it was.
\<close>

theorem init_pool_empty_dsn:
  "init_pool accepts env (Some []) mn mx st = init_pool accepts env None mn mx st \<and>
   (global_pool st = None \<and> has_config env user password host port database \<longrightarrow>
      init_pool accepts env (Some []) mn mx st =
        (case ConnectionPool accepts (spec_url user password host port database) mn mx st of
           (Inl e, st') \<Rightarrow> (Inl e, st')
         | (Inr p, st') \<Rightarrow> (Inr p, st'\<lparr>global_pool := Some p\<rparr>))) \<and>
   (global_pool st = None \<and> misconfigured env \<longrightarrow>
      init_pool accepts env (Some []) mn mx st = (Inl ConfigurationError, st))"
proof (intro conjI impI)
  show "init_pool accepts env (Some []) mn mx st = init_pool accepts env None mn mx st"
    by (cases "global_pool st") (simp_all add: init_pool_def py_or_def)
next
  assume "global_pool st = None \<and> has_config env user password host port database"
  then have a: "global_pool st = None" and c: "has_config env user password host port database"
    by simp_all
  show "init_pool accepts env (Some []) mn mx st =
        (case ConnectionPool accepts (spec_url user password host port database) mn mx st of
           (Inl e, st') \<Rightarrow> (Inl e, st')
         | (Inr p, st') \<Rightarrow> (Inr p, st'\<lparr>global_pool := Some p\<rparr>))"
    by (simp add: init_pool_configured [OF a c] py_or_def)
next
  assume "global_pool st = None \<and> misconfigured env"
  then show "init_pool accepts env (Some []) mn mx st = (Inl ConfigurationError, st)"
    by (simp add: init_pool_misconfigured)
qed

theorem init_pool_empty_dsn_witness:
  "global_pool initial_state = None \<and>
   has_config env_example ''u'' ''p'' ''h'' ''5432'' ''d'' \<and>
   misconfigured env_no_password \<and>
   init_pool accept_all env_example (Some []) 1 10 initial_state =
     (Inr 0,
      \<lparr>heap = [\<lparr>pool_conninfo =
                  ''postgresql://u:p@h:5432/d?sslmode=require&channel_binding=require'',
                pool_min_size = 1, pool_max_size = 10, pool_closed = False\<rparr>],
       global_pool = Some 0\<rparr>) \<and>
   init_pool accept_all env_no_password (Some []) 1 10 initial_state =
     (Inl ConfigurationError, initial_state)"
proof -
  from init_pool_empty_dsn
         [of accept_all env_example 1 10 initial_state "''u''" "''p''" "''h''" "''5432''" "''d''"]
    initial_absent has_config_example
  have "init_pool accept_all env_example (Some []) 1 10 initial_state =
        (case ConnectionPool accept_all (spec_url ''u'' ''p'' ''h'' ''5432'' ''d'') 1 10
                initial_state of
           (Inl e, st') \<Rightarrow> (Inl e, st')
         | (Inr p, st') \<Rightarrow> (Inr p, st'\<lparr>global_pool := Some p\<rparr>))"
    by blast
  then have a: "init_pool accept_all env_example (Some []) 1 10 initial_state =
     (Inr 0,
      \<lparr>heap = [\<lparr>pool_conninfo =
                  ''postgresql://u:p@h:5432/d?sslmode=require&channel_binding=require'',
                pool_min_size = 1, pool_max_size = 10, pool_closed = False\<rparr>],
       global_pool = Some 0\<rparr>)"
    by (simp add: ConnectionPool_def accept_all_def spec_url_def initial_state_def)
  from init_pool_empty_dsn
         [of accept_all env_no_password 1 10 initial_state "''u''" "''p''" "''h''" "''5432''" "''d''"]
    initial_absent misconfigured_no_password
  have b: "init_pool accept_all env_no_password (Some []) 1 10 initial_state =
     (Inl ConfigurationError, initial_state)"
    by blast
  from a b initial_absent has_config_example misconfigured_no_password show ?thesis by blast
qed

text \<open>
  C9. When \<^verbatim>\<open>init_pool\<close> or \<^verbatim>\<open>get_pool\<close> raises \<^verbatim>\<open>ConfigurationError\<close>, the state
  after the call is the state before it and its global is absent, so that a later call
  starts from where the failed one started.
\<close>

theorem failed_init_leaves_absent:
  "(fst (init_pool accepts env dsn mn mx st) = Inl ConfigurationError \<longrightarrow>
      snd (init_pool accepts env dsn mn mx st) = st \<and> global_pool st = None) \<and>
   (fst (get_pool accepts env st) = Inl ConfigurationError \<longrightarrow>
      snd (get_pool accepts env st) = st \<and> global_pool st = None)"
  using init_pool_error_state [of accepts env dsn mn mx st ConfigurationError]
    get_pool_error_state [of accepts env st ConfigurationError]
  by blast

theorem failed_init_leaves_absent_witness:
  "fst (init_pool accept_all env_no_password (Some ''postgresql://x:y@z:1/w'') 1 10 initial_state) =
     Inl ConfigurationError \<and>
   fst (get_pool accept_all env_no_password initial_state) = Inl ConfigurationError \<and>
   snd (init_pool accept_all env_no_password (Some ''postgresql://x:y@z:1/w'') 1 10 initial_state) =
     initial_state \<and>
   snd (get_pool accept_all env_no_password initial_state) = initial_state \<and>
   fst (get_pool accept_all env_example
          (snd (get_pool accept_all env_no_password initial_state))) = Inr 0"
proof -
  let ?dsn = "Some ''postgresql://x:y@z:1/w''"
  have i: "fst (init_pool accept_all env_no_password ?dsn 1 10 initial_state) =
             Inl ConfigurationError"
    by (simp add: init_pool_misconfigured [OF initial_absent misconfigured_no_password])
  have g: "fst (get_pool accept_all env_no_password initial_state) = Inl ConfigurationError"
    by (simp add: get_pool_absent [OF initial_absent]
          init_pool_misconfigured [OF initial_absent misconfigured_no_password])
  from failed_init_leaves_absent [of accept_all env_no_password ?dsn 1 10 initial_state] i g
  have s: "snd (init_pool accept_all env_no_password ?dsn 1 10 initial_state) = initial_state"
    and t: "snd (get_pool accept_all env_no_password initial_state) = initial_state"
    by blast+
  have "fst (get_pool accept_all env_example initial_state) = Inr 0"
    by (simp add: get_pool_configured
          [where accepts = accept_all, OF initial_absent has_config_example accept_all_example])
       (simp add: initial_state_def)
  with i g s t show ?thesis by simp
qed

text \<open>
  C10. \<^verbatim>\<open>get_pool\<close> never fails its assertion, and when it returns, the reference it
  returns is the one the global holds; so is the one \<^verbatim>\<open>init_pool\<close> returns.
\<close>

theorem get_pool_returns_present:
  "fst (get_pool accepts env st) \<noteq> Inl AssertionError \<and>
   (get_pool accepts env st = (Inr p, st') \<longrightarrow> global_pool st' = Some p) \<and>
   (init_pool accepts env dsn mn mx st = (Inr q, st'') \<longrightarrow> global_pool st'' = Some q)"
  using get_pool_no_assertion [of accepts env st] get_pool_stores [of accepts env st p]
    init_pool_stores [of accepts env dsn mn mx st q]
  by auto

theorem get_pool_returns_present_witness:
  "get_pool accept_all env_example initial_state = (Inr 0, state_example) \<and>
   init_pool accept_all env_example None 1 10 initial_state = (Inr 0, state_example) \<and>
   global_pool state_example = Some 0"
proof -
  have g: "get_pool accept_all env_example initial_state = (Inr 0, state_example)"
    by (simp add: state_example_eq get_pool_configured
          [where accepts = accept_all, OF initial_absent has_config_example accept_all_example])
       (simp add: initial_state_def spec_url_def)
  then have i: "init_pool accept_all env_example None 1 10 initial_state = (Inr 0, state_example)"
    by (simp add: get_pool_absent [OF initial_absent])
  from get_pool_returns_present
         [of accept_all env_example initial_state 0 state_example None 1 10 0 state_example] g i
  show ?thesis by blast
qed

end
